theory Spec2Isabelle
  imports Main
begin

section \<open>Data model\<close>

subsection \<open>Values of type \<^verbatim>\<open>uuid\<close>\<close>

text \<open>
  Every id column of the schema (SUPABASE_SCRIPT.md) has the type \<^verbatim>\<open>uuid\<close>: the
  store holds sixteen bytes, not the text the client sent. A value is written here as
  its thirty-two hexadecimal digits, in eight groups of four.
\<close>

datatype hex = H0 | H1 | H2 | H3 | H4 | H5 | H6 | H7 | H8 | H9 | HA | HB | HC | HD | HE | HF

type_synonym hex4 = "hex \<times> hex \<times> hex \<times> hex"

datatype uuid = UUID hex4 hex4 hex4 hex4 hex4 hex4 hex4 hex4

fun char_of_hex :: "hex \<Rightarrow> char" where
  "char_of_hex H0 = CHR ''0''"
| "char_of_hex H1 = CHR ''1''"
| "char_of_hex H2 = CHR ''2''"
| "char_of_hex H3 = CHR ''3''"
| "char_of_hex H4 = CHR ''4''"
| "char_of_hex H5 = CHR ''5''"
| "char_of_hex H6 = CHR ''6''"
| "char_of_hex H7 = CHR ''7''"
| "char_of_hex H8 = CHR ''8''"
| "char_of_hex H9 = CHR ''9''"
| "char_of_hex HA = CHR ''a''"
| "char_of_hex HB = CHR ''b''"
| "char_of_hex HC = CHR ''c''"
| "char_of_hex HD = CHR ''d''"
| "char_of_hex HE = CHR ''e''"
| "char_of_hex HF = CHR ''f''"

text \<open>A hexadecimal digit of the input, in either case.\<close>

definition hex_of_char :: "char \<Rightarrow> hex option" where
  "hex_of_char ch =
     map_of
       [(CHR ''0'', H0), (CHR ''1'', H1), (CHR ''2'', H2), (CHR ''3'', H3), (CHR ''4'', H4),
        (CHR ''5'', H5), (CHR ''6'', H6), (CHR ''7'', H7), (CHR ''8'', H8), (CHR ''9'', H9),
        (CHR ''a'', HA), (CHR ''b'', HB), (CHR ''c'', HC), (CHR ''d'', HD), (CHR ''e'', HE),
        (CHR ''f'', HF), (CHR ''A'', HA), (CHR ''B'', HB), (CHR ''C'', HC), (CHR ''D'', HD),
        (CHR ''E'', HE), (CHR ''F'', HF)] ch"

text \<open>
  The text the store sends for a value, and so what a row's id is in the handlers and
  hooks: lower-case digits in groups of 8, 4, 4, 4 and 12.
\<close>

fun hex4_out :: "hex4 \<Rightarrow> string" where
  "hex4_out (a, b, c, d) = [char_of_hex a, char_of_hex b, char_of_hex c, char_of_hex d]"

fun uuid_out :: "uuid \<Rightarrow> string" where
  "uuid_out (UUID g1 g2 g3 g4 g5 g6 g7 g8) =
     hex4_out g1 @ hex4_out g2 @ ''-'' @ hex4_out g3 @ ''-'' @ hex4_out g4 @ ''-''
     @ hex4_out g5 @ ''-'' @ hex4_out g6 @ hex4_out g7 @ hex4_out g8"

text \<open>
  The text the store accepts for a value, as a filter (\<^verbatim>\<open>.eq('id', id)\<close>) and as a
  column of a written row: digits in either case, an optional hyphen after any group of
  four digits but the last, optional braces around the whole. Any other text, the form
  \<^verbatim>\<open>urn:uuid:...\<close> among them, is an error of the query
  (\<^verbatim>\<open>invalid input syntax for type uuid\<close>).
\<close>

fun hex4_in :: "string \<Rightarrow> (hex4 \<times> string) option" where
  "hex4_in (a # b # c # d # src) =
     (case (hex_of_char a, hex_of_char b, hex_of_char c, hex_of_char d) of
        (Some w, Some x, Some y, Some z) \<Rightarrow> Some ((w, x, y, z), src)
      | _ \<Rightarrow> None)"
| "hex4_in _ = None"

fun skip_hyphen :: "string \<Rightarrow> string" where
  "skip_hyphen (ch # src) = (if ch = CHR ''-'' then src else ch # src)"
| "skip_hyphen [] = []"

fun open_brace :: "string \<Rightarrow> bool \<times> string" where
  "open_brace (ch # src) = (if ch = CHR ''{'' then (True, src) else (False, ch # src))"
| "open_brace [] = (False, [])"

definition hex4_then :: "string \<Rightarrow> (hex4 \<Rightarrow> string \<Rightarrow> 'a option) \<Rightarrow> 'a option" where
  "hex4_then src k = (case hex4_in src of None \<Rightarrow> None | Some (g, rest) \<Rightarrow> k g rest)"

definition uuid_in :: "string \<Rightarrow> uuid option" where
  "uuid_in source =
     (case open_brace source of (braces, src) \<Rightarrow>
        hex4_then src (\<lambda>g1 s1.
        hex4_then (skip_hyphen s1) (\<lambda>g2 s2.
        hex4_then (skip_hyphen s2) (\<lambda>g3 s3.
        hex4_then (skip_hyphen s3) (\<lambda>g4 s4.
        hex4_then (skip_hyphen s4) (\<lambda>g5 s5.
        hex4_then (skip_hyphen s5) (\<lambda>g6 s6.
        hex4_then (skip_hyphen s6) (\<lambda>g7 s7.
        hex4_then (skip_hyphen s7) (\<lambda>g8 s8.
          if s8 = (if braces then ''}'' else [])
          then Some (UUID g1 g2 g3 g4 g5 g6 g7 g8) else None)))))))))"

subsection \<open>Rows\<close>

text \<open>
  The rows of the four tables, as the \<^verbatim>\<open>Database\<close> type declares them
  (\<^verbatim>\<open>Tables<'tenants'>\<close>, \<^verbatim>\<open>Tables<'users'>\<close>, \<^verbatim>\<open>Tables<'competitions'>\<close>,
  \<^verbatim>\<open>Tables<'competition_allowed_schools'>\<close>), with the id columns at their type in
  the store. The field \<^verbatim>\<open>id\<close> is written \<open>id'\<close>. Fields that several records share
  are written qualified: \<open>competition.tenant_id c\<close>, \<open>user.tenant_id d\<close>.
\<close>

datatype visibility_enum = Public | Private | Restricted

record tenant =
  id' :: uuid
  name :: string
  created_at :: string

record user =
  id' :: uuid
  email :: string
  tenant_id :: uuid
  role :: string

record competition =
  id' :: uuid
  title :: string
  description :: "string option"
  visibility :: visibility_enum
  tenant_id :: uuid
  created_at :: string

record competition_allowed_school =
  competition_id :: uuid
  school_id :: uuid

text \<open>
  The data store: the four tables, each a list of rows. The routes query it through the
  server's own client, so a query sees every row of its table whoever the caller is.
\<close>

record store =
  tenants :: "tenant list"
  users :: "user list"
  competitions :: "competition list"
  competition_allowed_schools :: "competition_allowed_school list"

subsection \<open>Requests\<close>

text \<open>
  \<^verbatim>\<open>request.user\<close>, which the authentication hook attaches to the request: four
  strings taken from the token. The guards compare \<^verbatim>\<open>role\<close> with the literals
  \<^verbatim>\<open>'superuser'\<close>, \<^verbatim>\<open>'school_admin'\<close> and \<^verbatim>\<open>'student'\<close>, and \<^verbatim>\<open>id\<close> and
  \<^verbatim>\<open>tenant_id\<close> with path parameters and with the text of a row's columns, all by
  \<^verbatim>\<open>===\<close> on strings.
\<close>

record request_user =
  id' :: string
  email :: string
  tenant_id :: string
  role :: string

text \<open>
  \<^verbatim>\<open>Partial<Omit<Tables<'users'>, 'id'>>\<close>: every field may be absent
  (\<open>None\<close>).
\<close>

record user_body =
  email :: "string option"
  tenant_id :: "string option"
  role :: "string option"

text \<open>
  \<^verbatim>\<open>Partial<Omit<Tables<'competitions'>, 'id' | 'created_at'>>\<close>. The description
  is nullable: absent is \<open>None\<close>, \<^verbatim>\<open>null\<close> is \<open>Some None\<close>.
\<close>

record competition_body =
  title :: "string option"
  description :: "string option option"
  visibility :: "visibility_enum option"
  tenant_id :: "string option"

text \<open>The body of \<^verbatim>\<open>POST /competition-allowed-schools\<close>: two strings.\<close>

record allowed_school_body =
  competition_id :: string
  school_id :: string

subsection \<open>Hooks and replies\<close>

text \<open>
  A hook either returns without replying (the request goes on to the next stage) or
  sends a reply \<^verbatim>\<open>reply.code(n).send({ error: s })\<close> (or \<^verbatim>\<open>{ message: s }\<close>),
  which ends the request.
\<close>

datatype hook = Continue | Halt nat string

text \<open>Two checks in sequence: the second runs only when the first has not replied.\<close>

definition and_then :: "hook \<Rightarrow> hook \<Rightarrow> hook" where
  "and_then h1 h2 = (case h1 of Continue \<Rightarrow> h2 | Halt n e \<Rightarrow> Halt n e)"

text \<open>What a route answers: a status code with its payload, or a code with an error text.\<close>

datatype 'a response = Response nat 'a | ErrorResponse nat string

datatype http_method = GET | POST | PUT | DELETE

text \<open>JavaScript truthiness of an optional string, and the operator \<^verbatim>\<open>||\<close> on two.\<close>

definition truthy :: "string option \<Rightarrow> bool" where
  "truthy v = (case v of None \<Rightarrow> False | Some s \<Rightarrow> s \<noteq> [])"

definition js_or :: "string option \<Rightarrow> string option \<Rightarrow> string option" where
  "js_or a b = (if truthy a then a else b)"

subsection \<open>Queries\<close>

text \<open>
  What a query resolves to, \<^verbatim>\<open>{ data, error }\<close>: the data, or no data and an error
  with its \<^verbatim>\<open>code\<close> and \<^verbatim>\<open>message\<close>.
\<close>

datatype 'a query = Data 'a | Failed string string

text \<open>\<^verbatim>\<open>const { data } = await ...\<close>: a hook that reads only the data sees none on an error.\<close>

fun data_of :: "'a query \<Rightarrow> 'a option" where
  "data_of (Data x) = Some x"
| "data_of (Failed code message) = None"

text \<open>
  \<^verbatim>\<open>.single()\<close> yields the row when the query has exactly one, and otherwise the
  error \<^verbatim>\<open>PGRST116\<close>.
\<close>

fun single :: "'a list \<Rightarrow> 'a query" where
  "single [x] = Data x"
| "single _ = Failed ''PGRST116'' ''JSON object requested, multiple (or no) rows returned''"

text \<open>The store's error for a text that is not a uuid.\<close>

definition invalid_uuid_message :: "string \<Rightarrow> string" where
  "invalid_uuid_message s =
     ''invalid input syntax for type uuid: '' @ [CHR 0x22] @ s @ [CHR 0x22]"

definition invalid_uuid :: "string \<Rightarrow> 'a query" where
  "invalid_uuid s = Failed ''22P02'' (invalid_uuid_message s)"

text \<open>\<^verbatim>\<open>supabase.from('competitions').select('*').eq('id', id).single()\<close>\<close>

definition competition_by_id :: "store \<Rightarrow> string \<Rightarrow> competition query" where
  "competition_by_id st i =
     (case uuid_in i of
        None \<Rightarrow> invalid_uuid i
      | Some k \<Rightarrow> single (filter (\<lambda>c. competition.id' c = k) (competitions st)))"

text \<open>\<^verbatim>\<open>supabase.from('users').select('tenant_id, role').eq('id', id).single()\<close>\<close>

definition user_by_id :: "store \<Rightarrow> string \<Rightarrow> user query" where
  "user_by_id st i =
     (case uuid_in i of
        None \<Rightarrow> invalid_uuid i
      | Some k \<Rightarrow> single (filter (\<lambda>d. user.id' d = k) (users st)))"

text \<open>
  \<^verbatim>\<open>supabase.from('competition_allowed_schools').select('*')
  .eq('competition_id', id).eq('school_id', tenant).single()\<close>
\<close>

definition allowed_school_by_key ::
  "store \<Rightarrow> string \<Rightarrow> string \<Rightarrow> competition_allowed_school query" where
  "allowed_school_by_key st i t =
     (case uuid_in i of
        None \<Rightarrow> invalid_uuid i
      | Some k \<Rightarrow>
          (case uuid_in t of
             None \<Rightarrow> invalid_uuid t
           | Some s \<Rightarrow>
               single (filter (\<lambda>a. competition_allowed_school.competition_id a = k
                                 \<and> competition_allowed_school.school_id a = s)
                         (competition_allowed_schools st))))"

text \<open>
  What a handler answers to the error of a \<^verbatim>\<open>.single()\<close> query: 404 when its code is
  \<^verbatim>\<open>PGRST116\<close>, and otherwise 500 with the error's message.
\<close>

definition error_reply :: "string \<Rightarrow> string \<Rightarrow> string \<Rightarrow> 'a response" where
  "error_reply not_found code message =
     (if code = ''PGRST116'' then ErrorResponse 404 not_found else ErrorResponse 500 message)"

section \<open>Middleware (auth.middleware.ts)\<close>

text \<open>
  \<^verbatim>\<open>requireRole(allowedRoles)\<close>, for an authenticated request (\<^verbatim>\<open>request.user\<close>
  is set).
\<close>

definition requireRole :: "string list \<Rightarrow> request_user \<Rightarrow> hook" where
  "requireRole allowedRoles u =
     (if request_user.role u \<notin> set allowedRoles then Halt 403 ''Insufficient permissions''
      else Continue)"

text \<open>
  \<^verbatim>\<open>enforceTenantId\<close>: skipped for superusers; a \<^verbatim>\<open>tenantId\<close> in the route
  parameters or the query string must be the caller's tenant; on a method other than GET
  the body's \<^verbatim>\<open>tenant_id\<close> is overwritten with the caller's. The body is \<open>None\<close>
  where the hook runs before the body is parsed (as an \<^verbatim>\<open>onRequest\<close> hook);
  \<open>set_tenant_id\<close> is the assignment \<^verbatim>\<open>body.tenant_id = ...\<close> on the body's type.
\<close>

definition enforceTenantId ::
  "request_user \<Rightarrow> http_method \<Rightarrow> string option \<Rightarrow> string option \<Rightarrow> (string \<Rightarrow> 'b \<Rightarrow> 'b)
     \<Rightarrow> 'b option \<Rightarrow> hook \<times> 'b option" where
  "enforceTenantId u m params_tenantId query_tenantId set_tenant_id body =
     (if request_user.role u = ''superuser'' then (Continue, body)
      else
        let requestTenantId = js_or params_tenantId query_tenantId in
        if truthy requestTenantId \<and> requestTenantId \<noteq> Some (request_user.tenant_id u)
        then (Halt 403 ''Access denied: tenant mismatch'', body)
        else if m \<noteq> GET
        then (Continue, map_option (set_tenant_id (request_user.tenant_id u)) body)
        else (Continue, body))"

section \<open>Schema validation\<close>

text \<open>
  The \<^verbatim>\<open>format: 'uuid'\<close> of the route schemas, as the JSON-schema validator of the
  framework checks it: an optional prefix \<^verbatim>\<open>urn:uuid:\<close>, then groups of 8, 4, 4, 4
  and 12 hexadecimal digits joined by hyphens, letters in either case. It admits texts
  the store does not (the prefixed form), and the store admits texts it does not.
\<close>

definition is_hex :: "char \<Rightarrow> bool" where
  "is_hex ch = (ch \<in> set ''0123456789abcdefABCDEF'')"

fun all_hex :: "string \<Rightarrow> bool" where
  "all_hex [] = True"
| "all_hex (ch # cs) = (is_hex ch \<and> all_hex cs)"

definition uuid_groups :: "string \<Rightarrow> bool" where
  "uuid_groups s =
     (length s = 36 \<and>
      all_hex (take 8 s) \<and> s ! 8 = CHR ''-'' \<and>
      all_hex (take 4 (drop 9 s)) \<and> s ! 13 = CHR ''-'' \<and>
      all_hex (take 4 (drop 14 s)) \<and> s ! 18 = CHR ''-'' \<and>
      all_hex (take 4 (drop 19 s)) \<and> s ! 23 = CHR ''-'' \<and>
      all_hex (drop 24 s))"

definition urn_prefix :: "string \<Rightarrow> bool" where
  "urn_prefix s =
     list_all2 (\<lambda>ch either. ch \<in> set either) s
       [''uU'', ''rR'', ''nN'', '':'', ''uU'', ''uU'', ''iI'', ''dD'', '':'']"

definition is_uuid :: "string \<Rightarrow> bool" where
  "is_uuid s = (uuid_groups s \<or> (urn_prefix (take 9 s) \<and> uuid_groups (drop 9 s)))"

text \<open>
  The body schema of \<^verbatim>\<open>PUT /users/:id\<close>: every property is optional. The
  \<^verbatim>\<open>format: 'email'\<close> of the email is not checked here, so the predicate accepts
  every body the route's schema accepts.
\<close>

definition user_update_schema :: "user_body \<Rightarrow> bool" where
  "user_update_schema b =
     ((case user_body.tenant_id b of None \<Rightarrow> True | Some t \<Rightarrow> is_uuid t) \<and>
      (case user_body.role b of None \<Rightarrow> True | Some r \<Rightarrow> r \<in> set [''school_admin'', ''student'']))"

text \<open>
  The body schema of \<^verbatim>\<open>PUT /competitions/:id\<close>: every property is optional; the
  visibility is of the enumeration by its type.
\<close>

definition competition_update_schema :: "competition_body \<Rightarrow> bool" where
  "competition_update_schema b =
     (case competition_body.tenant_id b of None \<Rightarrow> True | Some t \<Rightarrow> is_uuid t)"

text \<open>What the framework answers to a request that fails its schema.\<close>

abbreviation validation_error :: "'a response" where
  "validation_error \<equiv> ErrorResponse 400 ''Bad Request''"

section \<open>Writes\<close>

text \<open>
  The uuid column of a written row: absent from the body, or a text the store reads as a
  value, or (\<open>Inl\<close>) a text it rejects.
\<close>

definition written_uuid :: "string option \<Rightarrow> string + uuid option" where
  "written_uuid v =
     (case v of
        None \<Rightarrow> Inr None
      | Some t \<Rightarrow> (case uuid_in t of None \<Rightarrow> Inl t | Some k \<Rightarrow> Inr (Some k)))"


text \<open>
  \<^verbatim>\<open>tenant_id uuid references tenants(id)\<close>: a tenant that is written must be the id
  of a row of tenants.
\<close>

definition references_tenant :: "store \<Rightarrow> uuid option \<Rightarrow> bool" where
  "references_tenant st v =
     (case v of None \<Rightarrow> True | Some k \<Rightarrow> k \<in> set (map tenant.id' (tenants st)))"

definition foreign_key_message :: "string \<Rightarrow> string \<Rightarrow> string" where
  "foreign_key_message table constraint =
     ''insert or update on table '' @ [CHR 0x22] @ table @ [CHR 0x22]
     @ '' violates foreign key constraint '' @ [CHR 0x22] @ constraint @ [CHR 0x22]"

section \<open>Competition routes (routes/competitions.ts)\<close>

subsection \<open>\<^verbatim>\<open>GET /competitions\<close>\<close>

text \<open>
  The route is registered with a schema and a handler only, no hook. The handler ignores
  the request (\<^verbatim>\<open>async (_, reply)\<close>) and sends every row of the table. The caller
  is an argument of the model because the route runs for every authenticated request.
\<close>

definition get_competitions :: "store \<Rightarrow> request_user \<Rightarrow> competition list response" where
  "get_competitions st u = Response 200 (competitions st)"

subsection \<open>\<^verbatim>\<open>GET /competitions/:id\<close>\<close>

definition get_competition_preHandler :: "store \<Rightarrow> request_user \<Rightarrow> string \<Rightarrow> hook" where
  "get_competition_preHandler st u i =
     (if request_user.role u = ''superuser'' then Continue
      else case data_of (competition_by_id st i) of
        None \<Rightarrow> Continue
      | Some c \<Rightarrow>
          if request_user.role u = ''school_admin''
             \<and> uuid_out (competition.tenant_id c) = request_user.tenant_id u
          then Continue
          else if competition.visibility c = Public then Continue
          else if uuid_out (competition.tenant_id c) = request_user.tenant_id u then Continue
          else if competition.visibility c = Restricted
                  \<and> data_of (allowed_school_by_key st i (request_user.tenant_id u)) \<noteq> None
          then Continue
          else Halt 403 ''Access denied to this competition'')"

definition get_competition_handler :: "store \<Rightarrow> string \<Rightarrow> competition response" where
  "get_competition_handler st i =
     (case competition_by_id st i of
        Data c \<Rightarrow> Response 200 c
      | Failed code message \<Rightarrow> error_reply ''Competition not found'' code message)"


subsection \<open>\<^verbatim>\<open>POST /competitions\<close>\<close>

definition post_competition_preValidation :: "request_user \<Rightarrow> competition_body \<Rightarrow> hook" where
  "post_competition_preValidation u b =
     (if request_user.role u \<noteq> ''superuser''
         \<and> competition_body.tenant_id b \<noteq> Some (request_user.tenant_id u)
      then Halt 403 ''Cannot create competitions for other tenants''
      else if request_user.role u \<noteq> ''school_admin'' \<and> request_user.role u \<noteq> ''superuser''
      then Halt 403 ''Only school administrators can create competitions''
      else Continue)"

subsection \<open>\<^verbatim>\<open>PUT /competitions/:id\<close>\<close>

definition put_competition_preValidation ::
  "store \<Rightarrow> request_user \<Rightarrow> string \<Rightarrow> competition_body \<Rightarrow> hook" where
  "put_competition_preValidation st u i b =
     (case data_of (competition_by_id st i) of
        None \<Rightarrow> Continue
      | Some c \<Rightarrow>
          if request_user.role u = ''school_admin''
             \<and> uuid_out (competition.tenant_id c) \<noteq> request_user.tenant_id u
          then Halt 403 ''Cannot update competitions from other tenants''
          else if request_user.role u = ''student''
          then Halt 403 ''Students cannot update competitions''
          else if truthy (competition_body.tenant_id b)
                  \<and> competition_body.tenant_id b \<noteq> Some (uuid_out (competition.tenant_id c))
          then Halt 403 ''Cannot change the owner tenant of a competition''
          else Continue)"

text \<open>\<^verbatim>\<open>body.tenant_id = request.user.tenant_id\<close> on a competition body.\<close>

definition set_competition_body_tenant_id ::
  "string \<Rightarrow> competition_body \<Rightarrow> competition_body" where
  "set_competition_body_tenant_id t b = b\<lparr>competition_body.tenant_id := Some t\<rparr>"

text \<open>
  \<^verbatim>\<open>.update(updateData)\<close> on one row: the fields the body has replace the row's; the
  tenant is the value the store has read from the body's text.
\<close>

definition update_competition_row ::
  "competition_body \<Rightarrow> uuid option \<Rightarrow> competition \<Rightarrow> competition" where
  "update_competition_row b new_tenant c =
     c\<lparr>competition.title :=
          (case competition_body.title b of None \<Rightarrow> competition.title c | Some t \<Rightarrow> t),
       competition.description :=
          (case competition_body.description b of
             None \<Rightarrow> competition.description c | Some d \<Rightarrow> d),
       competition.visibility :=
          (case competition_body.visibility b of
             None \<Rightarrow> competition.visibility c | Some v \<Rightarrow> v),
       competition.tenant_id :=
          (case new_tenant of None \<Rightarrow> competition.tenant_id c | Some t \<Rightarrow> t)\<rparr>"

text \<open>
  \<^verbatim>\<open>supabase.from('competitions').update(updateData).eq('id', id).select().single()\<close>.
  A text the store does not read as a uuid (the id, or the body's tenant) and a tenant
  that is no row's id are errors of the store, answered 500. Otherwise the answer is 200
  with the updated row when exactly one row has the id, and else 404
  (\<^verbatim>\<open>PGRST116\<close>) with nothing written.
\<close>

definition put_competition_handler ::
  "store \<Rightarrow> string \<Rightarrow> competition_body \<Rightarrow> competition response \<times> store" where
  "put_competition_handler st i b =
     (case uuid_in i of
        None \<Rightarrow> (ErrorResponse 500 (invalid_uuid_message i), st)
      | Some k \<Rightarrow>
          (case written_uuid (competition_body.tenant_id b) of
             Inl t \<Rightarrow> (ErrorResponse 500 (invalid_uuid_message t), st)
           | Inr new_tenant \<Rightarrow>
               (case single (filter (\<lambda>c. competition.id' c = k) (competitions st)) of
                  Failed code message \<Rightarrow>
                    (error_reply ''Competition not found'' code message, st)
                | Data c \<Rightarrow>
                    if \<not> references_tenant st new_tenant
                    then (ErrorResponse 500
                            (foreign_key_message ''competitions''
                               ''competitions_tenant_id_fkey''), st)
                    else (Response 200 (update_competition_row b new_tenant c),
                          st\<lparr>competitions :=
                               map (\<lambda>x. if competition.id' x = k
                                        then update_competition_row b new_tenant x else x)
                                 (competitions st)\<rparr>))))"

text \<open>
  The route, in the order of the framework's request lifecycle: the
  \<^verbatim>\<open>preValidation\<close> hook, schema validation, the \<^verbatim>\<open>preHandler\<close> hook
  \<^verbatim>\<open>enforceTenantId\<close> (which may rewrite the body), the handler. \<open>q\<close> is the
  \<^verbatim>\<open>tenantId\<close> of the query string, if any; the route has no \<^verbatim>\<open>tenantId\<close>
  parameter.
\<close>

definition put_competition ::
  "store \<Rightarrow> request_user \<Rightarrow> string option \<Rightarrow> string \<Rightarrow> competition_body
     \<Rightarrow> competition response \<times> store" where
  "put_competition st u q i b =
     (case put_competition_preValidation st u i b of
        Halt n e \<Rightarrow> (ErrorResponse n e, st)
      | Continue \<Rightarrow>
          if \<not> (is_uuid i \<and> competition_update_schema b) then (validation_error, st)
          else (case enforceTenantId u PUT None q set_competition_body_tenant_id (Some b) of
                  (Halt n e, _) \<Rightarrow> (ErrorResponse n e, st)
                | (Continue, body) \<Rightarrow>
                    put_competition_handler st i (case body of None \<Rightarrow> b | Some b' \<Rightarrow> b')))"

subsection \<open>\<^verbatim>\<open>DELETE /competitions/:id\<close>\<close>

definition delete_competition_preHandler :: "store \<Rightarrow> request_user \<Rightarrow> string \<Rightarrow> hook" where
  "delete_competition_preHandler st u i =
     (if request_user.role u = ''superuser'' then Continue
      else case data_of (competition_by_id st i) of
        None \<Rightarrow> Continue
      | Some c \<Rightarrow>
          if request_user.role u = ''school_admin''
             \<and> uuid_out (competition.tenant_id c) \<noteq> request_user.tenant_id u
          then Halt 403 ''Cannot delete competitions from other tenants''
          else if request_user.role u = ''student''
          then Halt 403 ''Students cannot delete competitions''
          else Continue)"



subsection \<open>\<^verbatim>\<open>GET /competitions/tenant/:tenantId\<close>\<close>

text \<open>
  For a school administrator and for a student whose tenant is not the requested one the
  hook only logs: in both branches the reply
  \<^verbatim>\<open>reply.code(403).send({ error: 'Access denied: tenant mismatch' })\<close> is commented
  out. Every branch of the hook therefore returns without replying.
\<close>

definition get_competitions_by_tenant_preHandler :: "request_user \<Rightarrow> string \<Rightarrow> hook" where
  "get_competitions_by_tenant_preHandler u tenantId =
     (if request_user.role u = ''superuser'' then Continue
      else if request_user.role u = ''school_admin'' \<and> tenantId \<noteq> request_user.tenant_id u
      then Continue
      else if request_user.role u = ''student'' \<and> tenantId \<noteq> request_user.tenant_id u
      then Continue
      else Continue)"

text \<open>\<^verbatim>\<open>supabase.from('competitions').select('*').eq('tenant_id', tenantId)\<close>\<close>

definition get_competitions_by_tenant_handler ::
  "store \<Rightarrow> string \<Rightarrow> competition list response" where
  "get_competitions_by_tenant_handler st tenantId =
     (case uuid_in tenantId of
        None \<Rightarrow> ErrorResponse 500 (invalid_uuid_message tenantId)
      | Some k \<Rightarrow>
          Response 200 (filter (\<lambda>c. competition.tenant_id c = k) (competitions st)))"

definition get_competitions_by_tenant ::
  "store \<Rightarrow> request_user \<Rightarrow> string \<Rightarrow> competition list response" where
  "get_competitions_by_tenant st u tenantId =
     (if \<not> is_uuid tenantId then validation_error
      else case get_competitions_by_tenant_preHandler u tenantId of
        Halt n e \<Rightarrow> ErrorResponse n e
      | Continue \<Rightarrow> get_competitions_by_tenant_handler st tenantId)"

subsection \<open>\<^verbatim>\<open>GET /competitions/visibility/public\<close>\<close>

definition get_public_competitions ::
  "store \<Rightarrow> request_user \<Rightarrow> competition list response" where
  "get_public_competitions st u =
     Response 200 (filter (\<lambda>c. competition.visibility c = Public) (competitions st))"

section \<open>User routes (routes/users.ts)\<close>

text \<open>
  \<^verbatim>\<open>server.addHook('onRequest', enforceTenantId)\<close>: the hook runs on every user
  route before the body is parsed, so it has no body to rewrite. Only
  \<^verbatim>\<open>GET /users/tenant/:tenantId\<close> has a \<^verbatim>\<open>tenantId\<close> parameter.
\<close>

definition users_onRequest ::
  "request_user \<Rightarrow> http_method \<Rightarrow> string option \<Rightarrow> string option \<Rightarrow> hook" where
  "users_onRequest u m params_tenantId q =
     fst (enforceTenantId u m params_tenantId q (\<lambda>t (b :: user_body). b) None)"

subsection \<open>\<^verbatim>\<open>GET /users/:id\<close>\<close>

definition get_user_preHandler :: "store \<Rightarrow> request_user \<Rightarrow> string \<Rightarrow> hook" where
  "get_user_preHandler st u i =
     (if i = request_user.id' u then Continue
      else if request_user.role u = ''school_admin''
              \<and> map_option (\<lambda>d. uuid_out (user.tenant_id d)) (data_of (user_by_id st i))
                  = Some (request_user.tenant_id u)
      then Continue
      else if request_user.role u = ''superuser'' then Continue
      else Halt 403 ''Insufficient permissions'')"

subsection \<open>\<^verbatim>\<open>POST /users\<close>\<close>

definition post_user_preHandler :: "request_user \<Rightarrow> user_body \<Rightarrow> hook" where
  "post_user_preHandler u b =
     and_then
       (if request_user.role u = ''school_admin''
        then (if user_body.tenant_id b \<noteq> Some (request_user.tenant_id u)
              then Halt 403 ''Cannot create users for other tenants''
              else if user_body.role b = Some ''superuser''
              then Halt 403 ''Cannot create superuser accounts''
              else Continue)
        else Continue)
       (if user_body.role b = Some ''superuser'' \<and> request_user.role u \<noteq> ''superuser''
        then Halt 403 ''Only superusers can create superuser accounts''
        else Continue)"

subsection \<open>\<^verbatim>\<open>PUT /users/:id\<close>\<close>

text \<open>
  The self-update branch is taken when the path parameter and the caller's id are the
  same string, and returns from the hook. The school-administrator branch replies or
  falls through; the last check then runs for every caller that got this far.
\<close>

definition put_user_preHandler :: "store \<Rightarrow> request_user \<Rightarrow> string \<Rightarrow> user_body \<Rightarrow> hook" where
  "put_user_preHandler st u i b =
     (if i = request_user.id' u
      then (if truthy (user_body.role b) \<or> truthy (user_body.tenant_id b)
            then Halt 403 ''Cannot change your own role or tenant''
            else Continue)
      else
        and_then
          (if request_user.role u = ''school_admin''
           then (case data_of (user_by_id st i) of
                   None \<Rightarrow> Halt 403 ''Cannot update users from other tenants''
                 | Some d \<Rightarrow>
                     if uuid_out (user.tenant_id d) \<noteq> request_user.tenant_id u
                     then Halt 403 ''Cannot update users from other tenants''
                     else if user.role d = ''superuser'' \<or> user_body.role b = Some ''superuser''
                     then Halt 403 ''Cannot update superuser accounts''
                     else if truthy (user_body.tenant_id b)
                             \<and> user_body.tenant_id b \<noteq> Some (request_user.tenant_id u)
                     then Halt 403 ''Cannot change tenant_id to another tenant''
                     else Continue)
           else Continue)
          (if request_user.role u \<noteq> ''superuser'' then Halt 403 ''Insufficient permissions''
           else Continue))"

definition update_user_row :: "user_body \<Rightarrow> uuid option \<Rightarrow> user \<Rightarrow> user" where
  "update_user_row b new_tenant d =
     d\<lparr>user.email := (case user_body.email b of None \<Rightarrow> user.email d | Some e \<Rightarrow> e),
       user.tenant_id := (case new_tenant of None \<Rightarrow> user.tenant_id d | Some t \<Rightarrow> t),
       user.role := (case user_body.role b of None \<Rightarrow> user.role d | Some x \<Rightarrow> x)\<rparr>"

text \<open>
  \<^verbatim>\<open>role text check (role in ('school_admin', 'student', 'superuser'))\<close>
\<close>

definition role_check :: "string option \<Rightarrow> bool" where
  "role_check v =
     (case v of
        None \<Rightarrow> True
      | Some r \<Rightarrow> r \<in> set [''school_admin'', ''student'', ''superuser''])"

definition check_message :: "string \<Rightarrow> string \<Rightarrow> string" where
  "check_message table constraint =
     ''new row for relation '' @ [CHR 0x22] @ table @ [CHR 0x22]
     @ '' violates check constraint '' @ [CHR 0x22] @ constraint @ [CHR 0x22]"

text \<open>
  \<^verbatim>\<open>supabase.from('users').update(updateData).eq('id', id).select().single()\<close>, with
  the store's errors (500) as for a competition, and the check of the role.
\<close>

definition put_user_handler :: "store \<Rightarrow> string \<Rightarrow> user_body \<Rightarrow> user response \<times> store" where
  "put_user_handler st i b =
     (case uuid_in i of
        None \<Rightarrow> (ErrorResponse 500 (invalid_uuid_message i), st)
      | Some k \<Rightarrow>
          (case written_uuid (user_body.tenant_id b) of
             Inl t \<Rightarrow> (ErrorResponse 500 (invalid_uuid_message t), st)
           | Inr new_tenant \<Rightarrow>
               (case single (filter (\<lambda>d. user.id' d = k) (users st)) of
                  Failed code message \<Rightarrow> (error_reply ''User not found'' code message, st)
                | Data d \<Rightarrow>
                    if \<not> role_check (user_body.role b)
                    then (ErrorResponse 500 (check_message ''users'' ''users_role_check''), st)
                    else if \<not> references_tenant st new_tenant
                    then (ErrorResponse 500
                            (foreign_key_message ''users'' ''users_tenant_id_fkey''), st)
                    else (Response 200 (update_user_row b new_tenant d),
                          st\<lparr>users :=
                               map (\<lambda>x. if user.id' x = k
                                        then update_user_row b new_tenant x else x)
                                 (users st)\<rparr>))))"

text \<open>
  The route: the \<^verbatim>\<open>onRequest\<close> hook, schema validation, the
  \<^verbatim>\<open>preHandler\<close> hook, the handler.
\<close>

definition put_user ::
  "store \<Rightarrow> request_user \<Rightarrow> string option \<Rightarrow> string \<Rightarrow> user_body
     \<Rightarrow> user response \<times> store" where
  "put_user st u q i b =
     (case users_onRequest u PUT None q of
        Halt n e \<Rightarrow> (ErrorResponse n e, st)
      | Continue \<Rightarrow>
          if \<not> (is_uuid i \<and> user_update_schema b) then (validation_error, st)
          else (case put_user_preHandler st u i b of
                  Halt n e \<Rightarrow> (ErrorResponse n e, st)
                | Continue \<Rightarrow> put_user_handler st i b))"

subsection \<open>\<^verbatim>\<open>DELETE /users/:id\<close>\<close>

definition delete_user_preHandler :: "store \<Rightarrow> request_user \<Rightarrow> string \<Rightarrow> hook" where
  "delete_user_preHandler st u i =
     (if i = request_user.id' u then Halt 403 ''Cannot delete your own account''
      else if request_user.role u = ''school_admin''
      then (case data_of (user_by_id st i) of
              None \<Rightarrow> Halt 403 ''Cannot delete users from other tenants''
            | Some d \<Rightarrow>
                if uuid_out (user.tenant_id d) \<noteq> request_user.tenant_id u
                then Halt 403 ''Cannot delete users from other tenants''
                else if user.role d = ''superuser''
                then Halt 403 ''Cannot delete superuser accounts''
                else Continue)
      else if request_user.role u \<noteq> ''superuser'' then Halt 403 ''Insufficient permissions''
      else Continue)"



subsection \<open>\<^verbatim>\<open>GET /users/tenant/:tenantId\<close>\<close>

definition get_users_by_tenant_preHandler :: "request_user \<Rightarrow> string \<Rightarrow> hook" where
  "get_users_by_tenant_preHandler u tenantId =
     (if request_user.role u = ''school_admin'' \<and> tenantId \<noteq> request_user.tenant_id u
      then Halt 403 ''Access denied: tenant mismatch''
      else if request_user.role u = ''student'' then Halt 403 ''Insufficient permissions''
      else Continue)"

section \<open>Tenant routes (routes/tenants.ts)\<close>

subsection \<open>\<^verbatim>\<open>GET /tenants/:id\<close>\<close>

definition get_tenant_preHandler :: "request_user \<Rightarrow> string \<Rightarrow> hook" where
  "get_tenant_preHandler u i =
     (if request_user.role u = ''superuser'' then Continue
      else if i = request_user.tenant_id u then Continue
      else Halt 403 ''Access denied: Cannot view other tenants'')"

section \<open>Allowed-school routes (routes/competition-allowed-schools.ts)\<close>

subsection \<open>\<^verbatim>\<open>GET /competition-allowed-schools/competition/:competitionId\<close>\<close>

definition get_allowed_schools_preHandler :: "store \<Rightarrow> request_user \<Rightarrow> string \<Rightarrow> hook" where
  "get_allowed_schools_preHandler st u competitionId =
     (if request_user.role u = ''superuser'' then Continue
      else case data_of (competition_by_id st competitionId) of
        None \<Rightarrow> Continue
      | Some c \<Rightarrow>
          if request_user.role u = ''school_admin''
             \<and> uuid_out (competition.tenant_id c) = request_user.tenant_id u
          then Continue
          else if competition.visibility c = Restricted
                  \<and> data_of (allowed_school_by_key st competitionId (request_user.tenant_id u))
                      \<noteq> None
          then Continue
          else if competition.visibility c = Public then Continue
          else if uuid_out (competition.tenant_id c) = request_user.tenant_id u then Continue
          else Halt 403 ''Access denied'')"

subsection \<open>\<^verbatim>\<open>GET /competition-allowed-schools/school/:schoolId\<close>\<close>

text \<open>
  On a mismatch of the requested school and the caller's tenant the hook only logs: the
  reply \<^verbatim>\<open>reply.code(403).send({ error: 'Access denied: tenant mismatch' })\<close> is
  commented out.
\<close>

definition get_school_competitions_preHandler :: "request_user \<Rightarrow> string \<Rightarrow> hook" where
  "get_school_competitions_preHandler u schoolId =
     (if request_user.role u = ''superuser'' then Continue
      else if schoolId \<noteq> request_user.tenant_id u then Continue
      else Continue)"

text \<open>
  \<^verbatim>\<open>new Map(entries)\<close> and \<^verbatim>\<open>map.values()\<close>: a Map keeps its keys in the
  order of their first insertion; setting a key that is present replaces its value in
  place. The keys are the ids of rows.
\<close>

fun map_set :: "('k \<times> 'a) list \<Rightarrow> 'k \<Rightarrow> 'a \<Rightarrow> ('k \<times> 'a) list" where
  "map_set [] k v = [(k, v)]"
| "map_set ((k', v') # m) k v =
     (if k' = k then (k, v) # m else (k', v') # map_set m k v)"

definition new_Map :: "('k \<times> 'a) list \<Rightarrow> ('k \<times> 'a) list" where
  "new_Map entries = foldl (\<lambda>m (k, v). map_set m k v) [] entries"

definition uniqueCompetitions :: "competition list \<Rightarrow> competition list" where
  "uniqueCompetitions accessibleCompetitions =
     map snd (new_Map (map (\<lambda>comp. (competition.id' comp, comp)) accessibleCompetitions))"

text \<open>
  The rows the three queries of the handler select, as one predicate: public; or owned
  by the school and restricted; or owned by another tenant and named by a grant of the
  school.
\<close>

definition accessible :: "store \<Rightarrow> uuid \<Rightarrow> competition \<Rightarrow> bool" where
  "accessible st school c =
     (competition.visibility c = Public
      \<or> (competition.tenant_id c = school \<and> competition.visibility c = Restricted)
      \<or> (competition.tenant_id c \<noteq> school
          \<and> (\<exists>a \<in> set (competition_allowed_schools st).
                competition_allowed_school.school_id a = school
                \<and> competition_allowed_school.competition_id a = competition.id' c)))"

text \<open>
  The same list in the words of the specification: every public competition, every
  competition the school owns (of any visibility), and every restricted competition of
  another tenant for which a grant names the school.
\<close>

definition spec_accessible :: "store \<Rightarrow> uuid \<Rightarrow> competition \<Rightarrow> bool" where
  "spec_accessible st school c =
     (competition.visibility c = Public
      \<or> competition.tenant_id c = school
      \<or> (competition.tenant_id c \<noteq> school \<and> competition.visibility c = Restricted
          \<and> (\<exists>a \<in> set (competition_allowed_schools st).
                competition_allowed_school.school_id a = school
                \<and> competition_allowed_school.competition_id a = competition.id' c)))"

text \<open>
  The handler runs three queries: the public competitions; the competitions of the
  school with visibility \<^verbatim>\<open>restricted\<close>; and, when the school has grants, the
  competitions of other tenants whose id a grant of the school names. It sends their
  concatenation without duplicate ids. The queries that filter on the school throw when
  the store rejects the parameter; the handler catches and answers 500.
\<close>

definition get_school_competitions_handler ::
  "store \<Rightarrow> string \<Rightarrow> competition list response" where
  "get_school_competitions_handler st schoolId =
     (case uuid_in schoolId of
        None \<Rightarrow> ErrorResponse 500 (invalid_uuid_message schoolId)
      | Some school \<Rightarrow>
          let publicCompetitions =
                filter (\<lambda>c. competition.visibility c = Public) (competitions st);
              ownedRestrictedCompetitions =
                filter (\<lambda>c. competition.tenant_id c = school
                            \<and> competition.visibility c = Restricted) (competitions st);
              allowedSchools =
                filter (\<lambda>a. competition_allowed_school.school_id a = school)
                  (competition_allowed_schools st);
              allowedCompetitions =
                (if length allowedSchools > 0
                 then let competitionIds =
                            map competition_allowed_school.competition_id allowedSchools
                      in filter (\<lambda>c. competition.id' c \<in> set competitionIds
                                     \<and> competition.tenant_id c \<noteq> school) (competitions st)
                 else []);
              accessibleCompetitions =
                publicCompetitions @ ownedRestrictedCompetitions @ allowedCompetitions
          in Response 200 (uniqueCompetitions accessibleCompetitions))"

definition get_school_competitions ::
  "store \<Rightarrow> request_user \<Rightarrow> string \<Rightarrow> competition list response" where
  "get_school_competitions st u schoolId =
     (if \<not> is_uuid schoolId then validation_error
      else case get_school_competitions_preHandler u schoolId of
        Halt n e \<Rightarrow> ErrorResponse n e
      | Continue \<Rightarrow> get_school_competitions_handler st schoolId)"

subsection \<open>\<^verbatim>\<open>POST /competition-allowed-schools\<close>\<close>

text \<open>
  The hook of a school administrator who owns the competition also writes:
  \<^verbatim>\<open>update({ visibility: 'restricted' }).eq('id', competition_id)\<close>; the result of
  that query is not read. The hook of a superuser returns at once.
\<close>

definition set_restricted :: "store \<Rightarrow> string \<Rightarrow> store" where
  "set_restricted st i =
     (case uuid_in i of
        None \<Rightarrow> st
      | Some k \<Rightarrow>
          st\<lparr>competitions :=
               map (\<lambda>c. if competition.id' c = k
                        then c\<lparr>competition.visibility := Restricted\<rparr> else c)
                 (competitions st)\<rparr>)"

definition post_allowed_school_preHandler ::
  "store \<Rightarrow> request_user \<Rightarrow> allowed_school_body \<Rightarrow> hook \<times> store" where
  "post_allowed_school_preHandler st u b =
     (if request_user.role u = ''superuser'' then (Continue, st)
      else if request_user.role u = ''school_admin''
      then (case data_of (competition_by_id st (allowed_school_body.competition_id b)) of
              None \<Rightarrow>
                (Halt 403 ''Cannot manage allowed schools for competitions from other tenants'',
                 st)
            | Some c \<Rightarrow>
                if uuid_out (competition.tenant_id c) \<noteq> request_user.tenant_id u
                then (Halt 403
                        ''Cannot manage allowed schools for competitions from other tenants'',
                      st)
                else (Continue, set_restricted st (allowed_school_body.competition_id b)))
      else (Halt 403 ''Only school administrators can manage competition visibility'', st))"

definition unique_message :: "string \<Rightarrow> string" where
  "unique_message constraint =
     ''duplicate key value violates unique constraint '' @ [CHR 0x22] @ constraint
     @ [CHR 0x22]"

text \<open>
  \<^verbatim>\<open>insert({ competition_id, school_id }).select().single()\<close>. The table declares
  the pair as its primary key and both columns as foreign keys (SUPABASE_SCRIPT.md); a
  text the store rejects and an insert that breaks a constraint are the store's errors,
  answered 500.
\<close>

definition post_allowed_school_handler ::
  "store \<Rightarrow> allowed_school_body \<Rightarrow> competition_allowed_school response \<times> store" where
  "post_allowed_school_handler st b =
     (case uuid_in (allowed_school_body.competition_id b) of
        None \<Rightarrow>
          (ErrorResponse 500 (invalid_uuid_message (allowed_school_body.competition_id b)), st)
      | Some k \<Rightarrow>
          (case uuid_in (allowed_school_body.school_id b) of
             None \<Rightarrow>
               (ErrorResponse 500 (invalid_uuid_message (allowed_school_body.school_id b)), st)
           | Some s \<Rightarrow>
               let row = \<lparr>competition_allowed_school.competition_id = k, school_id = s\<rparr> in
               if row \<in> set (competition_allowed_schools st)
               then (ErrorResponse 500 (unique_message ''competition_allowed_schools_pkey''),
                     st)
               else if k \<notin> set (map competition.id' (competitions st))
               then (ErrorResponse 500
                       (foreign_key_message ''competition_allowed_schools''
                          ''competition_allowed_schools_competition_id_fkey''), st)
               else if s \<notin> set (map tenant.id' (tenants st))
               then (ErrorResponse 500
                       (foreign_key_message ''competition_allowed_schools''
                          ''competition_allowed_schools_school_id_fkey''), st)
               else (Response 201 row,
                     st\<lparr>competition_allowed_schools :=
                          competition_allowed_schools st @ [row]\<rparr>)))"

definition post_allowed_school ::
  "store \<Rightarrow> request_user \<Rightarrow> allowed_school_body
     \<Rightarrow> competition_allowed_school response \<times> store" where
  "post_allowed_school st u b =
     (if \<not> (is_uuid (allowed_school_body.competition_id b)
              \<and> is_uuid (allowed_school_body.school_id b))
      then (validation_error, st)
      else (case post_allowed_school_preHandler st u b of
              (Halt n e, st') \<Rightarrow> (ErrorResponse n e, st')
            | (Continue, st') \<Rightarrow> post_allowed_school_handler st' b))"

subsection \<open>\<^verbatim>\<open>DELETE /competition-allowed-schools/:competitionId/:schoolId\<close>\<close>

definition delete_allowed_school_preHandler :: "store \<Rightarrow> request_user \<Rightarrow> string \<Rightarrow> hook" where
  "delete_allowed_school_preHandler st u competitionId =
     (if request_user.role u = ''superuser'' then Continue
      else if request_user.role u = ''school_admin''
      then (case data_of (competition_by_id st competitionId) of
              None \<Rightarrow>
                Halt 403 ''Cannot manage allowed schools for competitions from other tenants''
            | Some c \<Rightarrow>
                if uuid_out (competition.tenant_id c) \<noteq> request_user.tenant_id u
                then Halt 403
                       ''Cannot manage allowed schools for competitions from other tenants''
                else Continue)
      else Halt 403 ''Only school administrators can manage competition visibility'')"

section \<open>The route table (routes/index.ts)\<close>

text \<open>
  Every route the four route files register, with its path parameters and body. In the
  vocabulary of the specification: \<^verbatim>\<open>GET\<close> of one row is \<open>read_one\<close>, a list
  route is \<open>read_many\<close>, \<^verbatim>\<open>POST\<close> is \<open>create\<close>, \<^verbatim>\<open>PUT\<close> is
  \<open>update\<close>, \<^verbatim>\<open>DELETE\<close> is \<open>delete\<close>.
\<close>

datatype request =
    GetTenants
  | GetTenant string
  | PostTenant string
  | PutTenant string string
  | DeleteTenant string
  | GetUserDebug
  | GetUsers
  | GetUser string
  | PostUser user_body
  | PutUser string user_body
  | DeleteUser string
  | GetUsersByTenant string
  | GetCompetitions
  | GetCompetition string
  | PostCompetition competition_body
  | PutCompetition string competition_body
  | DeleteCompetition string
  | GetCompetitionsByTenant string
  | GetPublicCompetitions
  | GetAllowedSchools
  | GetAllowedSchoolsByCompetition string
  | GetCompetitionsBySchool string
  | PostAllowedSchool allowed_school_body
  | DeleteAllowedSchool string string

text \<open>
  The decision on a request: what the hooks of its route answer, run in the order of the
  request lifecycle (\<^verbatim>\<open>onRequest\<close>, \<^verbatim>\<open>preValidation\<close>, \<^verbatim>\<open>preHandler\<close>).
  \<open>Continue\<close> lets the request through to the handler; \<open>Halt 403\<close> denies it.
  \<open>q\<close> is the \<^verbatim>\<open>tenantId\<close> of the query string, if any. The requests are those
  of an authenticated caller: the authentication hook, which resolves
  \<^verbatim>\<open>request.user\<close> from the token, has run and is not part of the decision.
\<close>

fun route_hooks :: "store \<Rightarrow> request_user \<Rightarrow> string option \<Rightarrow> request \<Rightarrow> hook" where
  "route_hooks st u q GetTenants = requireRole [''superuser''] u"
| "route_hooks st u q (GetTenant i) = get_tenant_preHandler u i"
| "route_hooks st u q (PostTenant n) = requireRole [''superuser''] u"
| "route_hooks st u q (PutTenant i n) = requireRole [''superuser''] u"
| "route_hooks st u q (DeleteTenant i) = requireRole [''superuser''] u"
| "route_hooks st u q GetUserDebug = users_onRequest u GET None q"
| "route_hooks st u q GetUsers =
     and_then (users_onRequest u GET None q) (requireRole [''superuser''] u)"
| "route_hooks st u q (GetUser i) =
     and_then (users_onRequest u GET None q) (get_user_preHandler st u i)"
| "route_hooks st u q (PostUser b) =
     and_then (users_onRequest u POST None q) (post_user_preHandler u b)"
| "route_hooks st u q (PutUser i b) =
     and_then (users_onRequest u PUT None q) (put_user_preHandler st u i b)"
| "route_hooks st u q (DeleteUser i) =
     and_then (users_onRequest u DELETE None q) (delete_user_preHandler st u i)"
| "route_hooks st u q (GetUsersByTenant t) =
     and_then (users_onRequest u GET (Some t) q) (get_users_by_tenant_preHandler u t)"
| "route_hooks st u q GetCompetitions = Continue"
| "route_hooks st u q (GetCompetition i) = get_competition_preHandler st u i"
| "route_hooks st u q (PostCompetition b) =
     and_then (post_competition_preValidation u b)
       (fst (enforceTenantId u POST None q set_competition_body_tenant_id (Some b)))"
| "route_hooks st u q (PutCompetition i b) =
     and_then (put_competition_preValidation st u i b)
       (fst (enforceTenantId u PUT None q set_competition_body_tenant_id (Some b)))"
| "route_hooks st u q (DeleteCompetition i) = delete_competition_preHandler st u i"
| "route_hooks st u q (GetCompetitionsByTenant t) = get_competitions_by_tenant_preHandler u t"
| "route_hooks st u q GetPublicCompetitions = Continue"
| "route_hooks st u q GetAllowedSchools = requireRole [''superuser''] u"
| "route_hooks st u q (GetAllowedSchoolsByCompetition i) =
     get_allowed_schools_preHandler st u i"
| "route_hooks st u q (GetCompetitionsBySchool s) = get_school_competitions_preHandler u s"
| "route_hooks st u q (PostAllowedSchool b) = fst (post_allowed_school_preHandler st u b)"
| "route_hooks st u q (DeleteAllowedSchool i s) = delete_allowed_school_preHandler st u i"

text \<open>
  The path parameter of a request on a user's account names the caller's own account
  when it is the caller's id as the token has it, or another text that the store reads
  as the same value.
\<close>

definition own_account :: "request_user \<Rightarrow> string \<Rightarrow> bool" where
  "own_account u i =
     (i = request_user.id' u
      \<or> (uuid_in i \<noteq> None \<and> uuid_in i = uuid_in (request_user.id' u)))"

section \<open>A sample store\<close>

text \<open>
  Two schools, a superuser, an administrator and a student of the first school, a
  student of the second, and one competition of each visibility, all owned by the first
  school except the last. The ids, in the text the store sends for them, are
  \<^verbatim>\<open>aaaaaaaa-0000-4000-8000-000000000001\<close> and
  \<^verbatim>\<open>bbbbbbbb-0000-4000-8000-000000000002\<close> for the schools,
  \<^verbatim>\<open>00000000-0000-4000-8000-0000000000f0\<close>, \<^verbatim>\<open>...a1\<close>, \<^verbatim>\<open>...a2\<close> and
  \<^verbatim>\<open>...b2\<close> for the users, and \<^verbatim>\<open>cccccccc-0000-4000-8000-000000000001\<close> to
  \<^verbatim>\<open>...04\<close> for the competitions.
\<close>

definition school_A :: uuid where
  "school_A = UUID (HA, HA, HA, HA) (HA, HA, HA, HA) (H0, H0, H0, H0) (H4, H0, H0, H0)
                   (H8, H0, H0, H0) (H0, H0, H0, H0) (H0, H0, H0, H0) (H0, H0, H0, H1)"

definition school_B :: uuid where
  "school_B = UUID (HB, HB, HB, HB) (HB, HB, HB, HB) (H0, H0, H0, H0) (H4, H0, H0, H0)
                   (H8, H0, H0, H0) (H0, H0, H0, H0) (H0, H0, H0, H0) (H0, H0, H0, H2)"

definition user_uuid :: "hex \<Rightarrow> hex \<Rightarrow> uuid" where
  "user_uuid x y = UUID (H0, H0, H0, H0) (H0, H0, H0, H0) (H0, H0, H0, H0) (H4, H0, H0, H0)
                        (H8, H0, H0, H0) (H0, H0, H0, H0) (H0, H0, H0, H0) (H0, H0, x, y)"

definition competition_uuid :: "hex \<Rightarrow> uuid" where
  "competition_uuid y =
     UUID (HC, HC, HC, HC) (HC, HC, HC, HC) (H0, H0, H0, H0) (H4, H0, H0, H0)
          (H8, H0, H0, H0) (H0, H0, H0, H0) (H0, H0, H0, H0) (H0, H0, H0, y)"

definition root_row :: user where
  "root_row = \<lparr>user.id' = user_uuid HF H0, email = ''root@platform.example'',
                tenant_id = school_A, role = ''superuser''\<rparr>"

definition admin_A_row :: user where
  "admin_A_row = \<lparr>user.id' = user_uuid HA H1, email = ''admin@a.example'',
                   tenant_id = school_A, role = ''school_admin''\<rparr>"

definition student_A_row :: user where
  "student_A_row = \<lparr>user.id' = user_uuid HA H2, email = ''student@a.example'',
                     tenant_id = school_A, role = ''student''\<rparr>"

definition student_B_row :: user where
  "student_B_row = \<lparr>user.id' = user_uuid HB H2, email = ''student@b.example'',
                     tenant_id = school_B, role = ''student''\<rparr>"

text \<open>
  \<^verbatim>\<open>request.user\<close> for the token of a user: the id, tenant and role of the user's
  row, in the text the store sends.
\<close>

definition token_of :: "user \<Rightarrow> request_user" where
  "token_of d = \<lparr>request_user.id' = uuid_out (user.id' d), email = user.email d,
                  tenant_id = uuid_out (user.tenant_id d), role = user.role d\<rparr>"

definition root :: request_user where
  "root = token_of root_row"

definition admin_A :: request_user where
  "admin_A = token_of admin_A_row"

definition student_A :: request_user where
  "student_A = token_of student_A_row"

definition student_B :: request_user where
  "student_B = token_of student_B_row"

definition comp_public :: competition where
  "comp_public = \<lparr>competition.id' = competition_uuid H1,
                   title = ''Open day'', description = None, visibility = Public,
                   tenant_id = school_A, created_at = ''2025-01-01T00:00:00Z''\<rparr>"

definition comp_private :: competition where
  "comp_private = \<lparr>competition.id' = competition_uuid H2,
                    title = ''House cup'', description = Some ''internal'', visibility = Private,
                    tenant_id = school_A, created_at = ''2025-01-02T00:00:00Z''\<rparr>"

definition comp_restricted :: competition where
  "comp_restricted = \<lparr>competition.id' = competition_uuid H3,
                       title = ''League'', description = None, visibility = Restricted,
                       tenant_id = school_A, created_at = ''2025-01-03T00:00:00Z''\<rparr>"

definition comp_private_B :: competition where
  "comp_private_B = \<lparr>competition.id' = competition_uuid H4,
                      title = ''Trials'', description = None, visibility = Private,
                      tenant_id = school_B, created_at = ''2025-01-04T00:00:00Z''\<rparr>"

definition sample_store :: store where
  "sample_store =
     \<lparr>tenants = [\<lparr>tenant.id' = school_A, name = ''School A'',
                     created_at = ''2024-09-01T00:00:00Z''\<rparr>,
                  \<lparr>tenant.id' = school_B, name = ''School B'',
                     created_at = ''2024-09-01T00:00:00Z''\<rparr>],
      users = [root_row, admin_A_row, student_A_row, student_B_row],
      competitions = [comp_public, comp_private, comp_restricted, comp_private_B],
      competition_allowed_schools = []\<rparr>"

text \<open>An id that no row of the sample store has.\<close>

definition missing_id :: string where
  "missing_id = ''ffffffff-0000-4000-8000-00000000dead''"

text \<open>The id of the superuser with its last letter in upper case.\<close>

definition root_id_upper :: string where
  "root_id_upper = ''00000000-0000-4000-8000-0000000000F0''"

lemmas sample_defs =
  school_A_def school_B_def user_uuid_def competition_uuid_def
  root_row_def admin_A_row_def student_A_row_def student_B_row_def token_of_def
  root_def admin_A_def student_A_def student_B_def
  comp_public_def comp_private_def comp_restricted_def comp_private_B_def
  sample_store_def missing_id_def root_id_upper_def

lemmas uuid_in_defs = uuid_in_def hex4_then_def hex_of_char_def

lemmas is_uuid_defs = is_uuid_def uuid_groups_def is_hex_def

section \<open>Properties\<close>

subsection \<open>Auxiliary facts\<close>

text \<open>The store reads the text it sends for a value as that value.\<close>

lemma hex_of_char_of_hex [simp]: "hex_of_char (char_of_hex h) = Some h"
  by (cases h) (simp_all add: hex_of_char_def)

lemma char_of_hex_not_hyphen [simp]: "char_of_hex h \<noteq> CHR ''-''"
  by (cases h) simp_all

lemma char_of_hex_not_brace [simp]: "char_of_hex h \<noteq> CHR ''{''"
  by (cases h) simp_all

lemma hex4_in_out [simp]: "hex4_in (hex4_out g @ rest) = Some (g, rest)"
  by (cases g) simp

lemma skip_hyphen_hex4 [simp]: "skip_hyphen (hex4_out g @ rest) = hex4_out g @ rest"
  by (cases g) simp

lemma skip_hyphen_hyphen [simp]: "skip_hyphen (CHR ''-'' # rest) = rest"
  by simp

lemma open_brace_hex4 [simp]: "open_brace (hex4_out g @ rest) = (False, hex4_out g @ rest)"
  by (cases g) simp

lemma hex4_then_out [simp]: "hex4_then (hex4_out g @ rest) k = k g rest"
  by (simp add: hex4_then_def del: hex4_out.simps hex4_in.simps)

lemma uuid_in_out [simp]: "uuid_in (uuid_out v) = Some v"
proof (cases v)
  case (UUID g1 g2 g3 g4 g5 g6 g7 g8)
  have last: "hex4_then (skip_hyphen (hex4_out g8)) k = k g8 []"
    for k :: "hex4 \<Rightarrow> string \<Rightarrow> uuid option"
    using hex4_then_out [of g8 "[]" k] skip_hyphen_hex4 [of g8 "[]"] by simp
  show ?thesis
    by (simp add: UUID uuid_in_def last
          del: hex4_out.simps hex4_in.simps skip_hyphen.simps open_brace.simps)
qed

lemma uuid_out_inject [simp]: "uuid_out v = uuid_out w \<longleftrightarrow> v = w"
proof
  assume "uuid_out v = uuid_out w"
  then have "uuid_in (uuid_out v) = uuid_in (uuid_out w)" by simp
  then show "v = w" by simp
qed simp

lemma is_uuid_nonempty: "is_uuid s \<Longrightarrow> s \<noteq> []"
  by (auto simp: is_uuid_def uuid_groups_def urn_prefix_def)

lemma single_Data_iff: "single xs = Data x \<longleftrightarrow> xs = [x]"
  by (cases xs rule: single.cases) auto

lemma single_Failed: "single xs = Failed code message \<Longrightarrow> code = ''PGRST116''"
  by (cases xs rule: single.cases) auto

lemma competition_by_id_Data:
  assumes "competition_by_id st i = Data c"
  obtains k where "uuid_in i = Some k"
    and "filter (\<lambda>x. competition.id' x = k) (competitions st) = [c]"
  using assms
  by (auto simp: competition_by_id_def invalid_uuid_def single_Data_iff split: option.splits)





lemma js_or_None [simp]: "js_or None q = q"
  by (simp add: js_or_def truthy_def)





lemma put_competition_preValidation_code:
  "put_competition_preValidation st u i b = Halt n e \<Longrightarrow> n = 403"
  by (auto simp: put_competition_preValidation_def split: option.splits if_splits)




text \<open>
  An update of a competition whose body has no tenant, or the tenant the competition has,
  leaves the tenant of every row as it was.
\<close>

lemma put_competition_handler_tenants:
  assumes found: "competition_by_id st i = Data c"
    and same: "competition_body.tenant_id b = None
               \<or> competition_body.tenant_id b = Some (uuid_out (competition.tenant_id c))"
  shows "map competition.tenant_id (competitions (snd (put_competition_handler st i b)))
         = map competition.tenant_id (competitions st)"
proof -
  from found obtain k where k: "uuid_in i = Some k"
    and rows: "filter (\<lambda>x. competition.id' x = k) (competitions st) = [c]"
    by (rule competition_by_id_Data)
  from same obtain new_tenant where w: "written_uuid (competition_body.tenant_id b) = Inr new_tenant"
    and nt: "new_tenant = None \<or> new_tenant = Some (competition.tenant_id c)"
    by (auto simp: written_uuid_def)
  have only: "x = c" if "x \<in> set (competitions st)" "competition.id' x = k" for x
  proof -
    from that have "x \<in> set (filter (\<lambda>x. competition.id' x = k) (competitions st))" by simp
    with rows show ?thesis by simp
  qed
  have keep: "competition.tenant_id (update_competition_row b new_tenant c)
                = competition.tenant_id c"
    using nt by (auto simp: update_competition_row_def)
  have "map competition.tenant_id
          (map (\<lambda>x. if competition.id' x = k then update_competition_row b new_tenant x else x)
             (competitions st))
        = map competition.tenant_id (competitions st)"
    using only keep by (auto simp: map_eq_conv)
  then show ?thesis
    by (simp add: put_competition_handler_def k w rows)
qed

subsection \<open>Listing all competitions\<close>

text \<open>
  Claim C7. For every authenticated caller, \<^verbatim>\<open>GET /competitions\<close> answers 200 with
  every row of the competitions table, private and restricted competitions of other
  tenants included: two callers, whatever their roles and tenants, get the same answer.
\<close>

theorem get_competitions_ignores_caller:
  "get_competitions st u = Response 200 (competitions st)
   \<and> get_competitions st u = get_competitions st u'
   \<and> route_hooks st u q GetCompetitions = Continue"
  by (simp add: get_competitions_def)

subsection \<open>Reading a public competition\<close>

text \<open>
  Claim C9. When the competition with the requested id exists and its visibility is
  public, the hook of \<^verbatim>\<open>GET /competitions/:id\<close> lets every authenticated caller
  through, whatever the caller's role and tenant, and the handler answers 200 with the
  competition.
\<close>

theorem public_competition_read_allowed:
  assumes "competition_by_id st i = Data c"
    and "competition.visibility c = Public"
  shows "get_competition_preHandler st u i = Continue
         \<and> get_competition_handler st i = Response 200 c"
  using assms by (simp add: get_competition_preHandler_def get_competition_handler_def)

theorem public_competition_read_allowed_witness:
  "competition_by_id sample_store (uuid_out (competition.id' comp_public)) = Data comp_public
   \<and> competition.visibility comp_public = Public
   \<and> get_competition_preHandler sample_store student_B
        (uuid_out (competition.id' comp_public)) = Continue
   \<and> get_competition_handler sample_store (uuid_out (competition.id' comp_public))
       = Response 200 comp_public"
proof -
  have found:
    "competition_by_id sample_store (uuid_out (competition.id' comp_public))
       = Data comp_public"
    by (simp add: competition_by_id_def uuid_in_defs sample_defs)
  have vis: "competition.visibility comp_public = Public"
    by (simp add: comp_public_def)
  show ?thesis
    using found vis public_competition_read_allowed [OF found vis, of student_B] by simp
qed

subsection \<open>The owner of a competition cannot be changed\<close>

text \<open>
  Claim C10. For an existing competition and a caller of any role, an update
  (\<^verbatim>\<open>PUT /competitions/:id\<close>) whose body sets \<^verbatim>\<open>tenant_id\<close> to a value other than
  the competition's tenant is denied: the hook replies 403 (for the empty string, which
  the hook takes for an absent field, the schema replies 400), and the store is left as
  it was. Hence every update a student, a school administrator or a superuser is allowed
  leaves the \<^verbatim>\<open>tenant_id\<close> of every competition unchanged.
\<close>

theorem competition_tenant_id_immutable:
  assumes found: "competition_by_id st i = Data c"
  shows "((competition_body.tenant_id b = Some t \<and> t \<noteq> uuid_out (competition.tenant_id c)) \<longrightarrow>
            (t \<noteq> [] \<longrightarrow> (\<exists>e. put_competition_preValidation st u i b = Halt 403 e))
            \<and> (\<exists>n e. put_competition st u q i b = (ErrorResponse n e, st)
                      \<and> (n = 400 \<or> n = 403)))
         \<and> (request_user.role u \<in> {''superuser'', ''school_admin'', ''student''} \<longrightarrow>
              map competition.tenant_id (competitions (snd (put_competition st u q i b)))
                = map competition.tenant_id (competitions st))"
proof -
  have denied: "\<exists>e. put_competition_preValidation st u i b = Halt 403 e"
    if "competition_body.tenant_id b = Some t" "t \<noteq> uuid_out (competition.tenant_id c)"
       "t \<noteq> []"
    using that found by (simp add: put_competition_preValidation_def truthy_def)
  have rejected: "\<exists>n e. put_competition st u q i b = (ErrorResponse n e, st)
                         \<and> (n = 400 \<or> n = 403)"
    if "competition_body.tenant_id b = Some t" "t \<noteq> uuid_out (competition.tenant_id c)"
  proof (cases "t = []")
    case True
    with that have "\<not> competition_update_schema b"
      using is_uuid_nonempty by (auto simp: competition_update_schema_def)
    then show ?thesis
      using put_competition_preValidation_code [of st u i b]
      by (auto simp: put_competition_def split: hook.splits)
  next
    case False
    with denied that obtain e where "put_competition_preValidation st u i b = Halt 403 e"
      by blast
    then show ?thesis by (simp add: put_competition_def)
  qed
  have unchanged:
    "map competition.tenant_id (competitions (snd (put_competition st u q i b)))
       = map competition.tenant_id (competitions st)"
    if role: "request_user.role u \<in> {''superuser'', ''school_admin'', ''student''}"
  proof (cases "put_competition_preValidation st u i b")
    case (Halt n e)
    then show ?thesis by (simp add: put_competition_def)
  next
    case Continue
    show ?thesis
    proof (cases "is_uuid i \<and> competition_update_schema b")
      case False
      with Continue show ?thesis by (simp add: put_competition_def)
    next
      case True
      show ?thesis
      proof (cases "request_user.role u = ''superuser''")
        case su: True
        from Continue found True
        have "competition_body.tenant_id b = None
              \<or> competition_body.tenant_id b = Some (uuid_out (competition.tenant_id c))"
          using is_uuid_nonempty
          by (auto simp: put_competition_preValidation_def competition_update_schema_def
                truthy_def split: if_splits option.splits)
        from put_competition_handler_tenants [OF found this] Continue True su
        show ?thesis by (simp add: put_competition_def enforceTenantId_def)
      next
        case nsu: False
        from Continue found role nsu
        have own: "uuid_out (competition.tenant_id c) = request_user.tenant_id u"
          by (auto simp: put_competition_preValidation_def split: if_splits)
        have "competition_body.tenant_id
                (set_competition_body_tenant_id (request_user.tenant_id u) b)
                = Some (uuid_out (competition.tenant_id c))"
          by (simp add: set_competition_body_tenant_id_def own)
        then have "map competition.tenant_id (competitions (snd
                     (put_competition_handler st i
                        (set_competition_body_tenant_id (request_user.tenant_id u) b))))
                   = map competition.tenant_id (competitions st)"
          using put_competition_handler_tenants [OF found] by blast
        with Continue True nsu show ?thesis
          by (simp add: put_competition_def enforceTenantId_def Let_def)
      qed
    qed
  qed
  show ?thesis using denied rejected unchanged by blast
qed

text \<open>
  The superuser asks to move the public competition of the first school to the second:
  the hook replies 403 and the store is unchanged.
\<close>

theorem competition_tenant_id_immutable_witness:
  "competition_by_id sample_store (uuid_out (competition.id' comp_public)) = Data comp_public
   \<and> uuid_out school_B \<noteq> uuid_out (competition.tenant_id comp_public)
   \<and> request_user.role root \<in> {''superuser'', ''school_admin'', ''student''}
   \<and> (\<exists>e. put_competition_preValidation sample_store root
             (uuid_out (competition.id' comp_public))
             \<lparr>title = None, description = None, visibility = None,
                tenant_id = Some (uuid_out school_B)\<rparr>
           = Halt 403 e)
   \<and> (\<exists>n e. put_competition sample_store root None (uuid_out (competition.id' comp_public))
             \<lparr>title = None, description = None, visibility = None,
                tenant_id = Some (uuid_out school_B)\<rparr>
           = (ErrorResponse n e, sample_store))
   \<and> map competition.tenant_id (competitions (snd
         (put_competition sample_store root None (uuid_out (competition.id' comp_public))
            \<lparr>title = None, description = None, visibility = None,
               tenant_id = Some (uuid_out school_B)\<rparr>)))
       = map competition.tenant_id (competitions sample_store)"
proof -
  let ?b = "\<lparr>title = None, description = None, visibility = None,
              tenant_id = Some (uuid_out school_B)\<rparr>"
  have found: "competition_by_id sample_store (uuid_out (competition.id' comp_public))
                 = Data comp_public"
    by (simp add: competition_by_id_def uuid_in_defs sample_defs)
  have sets: "competition_body.tenant_id ?b = Some (uuid_out school_B)" by simp
  have other: "uuid_out school_B \<noteq> uuid_out (competition.tenant_id comp_public)"
    by (simp add: sample_defs)
  have nonempty: "uuid_out school_B \<noteq> []" by (simp add: school_B_def)
  have role: "request_user.role root \<in> {''superuser'', ''school_admin'', ''student''}"
    by (simp add: sample_defs)
  from competition_tenant_id_immutable [OF found, of ?b "uuid_out school_B" root None]
    sets other nonempty role found
  show ?thesis by blast
qed

subsection \<open>What a superuser is allowed\<close>




subsection \<open>A target that does not exist\<close>




subsection \<open>Self-service update of a user\<close>

text \<open>A body that passes the schema sets a field exactly when the field is truthy.\<close>

lemma schema_role_truthy:
  "user_update_schema b \<Longrightarrow> truthy (user_body.role b) = (user_body.role b \<noteq> None)"
  by (auto simp: user_update_schema_def truthy_def split: option.splits)

lemma schema_tenant_truthy:
  "user_update_schema b
   \<Longrightarrow> truthy (user_body.tenant_id b) = (user_body.tenant_id b \<noteq> None)"
  by (auto simp: user_update_schema_def truthy_def is_uuid_nonempty split: option.splits)

text \<open>
  When the path parameter is the caller's id as the token has it, an update that sets
  role or tenant is denied; and a caller who is not a superuser is denied every update
  under another path parameter.
\<close>

lemma self_update_with_token_id_denied:
  assumes "user_update_schema b"
    and "user_body.role b \<noteq> None \<or> user_body.tenant_id b \<noteq> None"
  shows "put_user_preHandler st u (request_user.id' u) b
           = Halt 403 ''Cannot change your own role or tenant''"
  using assms by (simp add: put_user_preHandler_def schema_role_truthy schema_tenant_truthy)

lemma other_id_update_denied_unless_superuser:
  assumes "request_user.role u \<noteq> ''superuser''" and "i \<noteq> request_user.id' u"
  shows "\<exists>e. put_user_preHandler st u i b = Halt 403 e"
  using assms
  by (auto simp: put_user_preHandler_def and_then_def split: option.splits)

text \<open>
  Claim C8 fails on the code. The superuser updates their own account under their id
  written with an upper-case letter, with a body that sets the role. The path is not the
  string of the token, so the hook skips the self-update branch, and its last check lets
  a superuser through; the store reads the path as the id of the superuser's row,
  rewrites the role of that row, and the route answers 200.
\<close>

theorem superuser_changes_own_role_by_upper_case_id:
  "request_user.role root = ''superuser''
   \<and> user.role root_row = ''superuser''
   \<and> root_row \<in> set (users sample_store)
   \<and> uuid_in (request_user.id' root) = Some (user.id' root_row)
   \<and> uuid_in root_id_upper = Some (user.id' root_row)
   \<and> own_account root root_id_upper
   \<and> is_uuid root_id_upper
   \<and> user_update_schema \<lparr>email = None, tenant_id = None, role = Some ''student''\<rparr>
   \<and> put_user sample_store root None root_id_upper
        \<lparr>email = None, tenant_id = None, role = Some ''student''\<rparr>
       = (Response 200 (root_row\<lparr>user.role := ''student''\<rparr>),
          sample_store\<lparr>users := [root_row\<lparr>user.role := ''student''\<rparr>,
                                 admin_A_row, student_A_row, student_B_row]\<rparr>)"
  by (simp add: put_user_def users_onRequest_def enforceTenantId_def
        user_update_schema_def put_user_preHandler_def and_then_def put_user_handler_def
        written_uuid_def role_check_def references_tenant_def update_user_row_def
        own_account_def uuid_in_defs is_uuid_defs sample_defs)

subsection \<open>The competitions a school can access\<close>

text \<open>The keys of a Map are distinct and are those of its entries; its entries are among them.\<close>

lemma map_set_keys: "set (map fst (map_set m k v)) = insert k (set (map fst m))"
  by (induction m k v rule: map_set.induct) auto

lemma map_set_key_cases:
  "(a, b) \<in> set (map_set m k v) \<Longrightarrow> a = k \<or> a \<in> fst ` set m"
  using map_set_keys [of m k v] by force

lemma map_set_distinct: "distinct (map fst m) \<Longrightarrow> distinct (map fst (map_set m k v))"
  by (induction m k v rule: map_set.induct) (auto dest: map_set_key_cases)

lemma map_set_entries: "set (map_set m k v) \<subseteq> insert (k, v) (set m)"
  by (induction m k v rule: map_set.induct) auto

lemma foldl_map_set:
  "distinct (map fst m) \<Longrightarrow>
   distinct (map fst (foldl (\<lambda>m (k, v). map_set m k v) m es))
   \<and> set (map fst (foldl (\<lambda>m (k, v). map_set m k v) m es))
       = set (map fst m) \<union> set (map fst es)
   \<and> set (foldl (\<lambda>m (k, v). map_set m k v) m es) \<subseteq> set m \<union> set es"
proof (induction es arbitrary: m)
  case Nil
  then show ?case by simp
next
  case (Cons e es)
  obtain k v where e: "e = (k, v)" by (cases e)
  from Cons.prems have d: "distinct (map fst (map_set m k v))" by (rule map_set_distinct)
  from Cons.IH [OF d] map_set_keys [of m k v] map_set_entries [of m k v] e
  show ?case by auto
qed

lemma new_Map_props:
  "distinct (map fst (new_Map es))"
  "set (map fst (new_Map es)) = set (map fst es)"
  "set (new_Map es) \<subseteq> set es"
  using foldl_map_set [of "[]" es] by (simp_all add: new_Map_def)

lemma uniqueCompetitions_ids:
  "map competition.id' (uniqueCompetitions xs)
   = map fst (new_Map (map (\<lambda>comp. (competition.id' comp, comp)) xs))"
proof -
  have "\<forall>e \<in> set (new_Map (map (\<lambda>comp. (competition.id' comp, comp)) xs)).
          competition.id' (snd e) = fst e"
    using new_Map_props(3) [of "map (\<lambda>comp. (competition.id' comp, comp)) xs"] by auto
  then show ?thesis
    by (simp add: uniqueCompetitions_def)
qed

lemma uniqueCompetitions_distinct: "distinct (map competition.id' (uniqueCompetitions xs))"
  by (simp add: uniqueCompetitions_ids new_Map_props(1))

lemma uniqueCompetitions_id_set:
  "set (map competition.id' (uniqueCompetitions xs)) = set (map competition.id' xs)"
  using new_Map_props(2) [of "map (\<lambda>comp. (competition.id' comp, comp)) xs"]
  by (simp add: uniqueCompetitions_ids image_image)

text \<open>
  What the handler sends, for every store and school: no id twice, and exactly the ids of
  the rows its three queries select.
\<close>

lemma school_competitions_ids:
  assumes "get_school_competitions_handler st s = Response 200 xs"
  obtains school where "uuid_in s = Some school"
    and "distinct (map competition.id' xs)"
    and "set (map competition.id' xs)
         = competition.id' ` {c \<in> set (competitions st). accessible st school c}"
proof -
  from assms obtain school where school: "uuid_in s = Some school"
    by (auto simp: get_school_competitions_handler_def split: option.splits)
  define grants where
    "grants = filter (\<lambda>a. competition_allowed_school.school_id a = school)
                (competition_allowed_schools st)"
  define acc where
    "acc = filter (\<lambda>c. competition.visibility c = Public) (competitions st)
           @ filter (\<lambda>c. competition.tenant_id c = school
                          \<and> competition.visibility c = Restricted) (competitions st)
           @ (if length grants > 0
              then filter (\<lambda>c. competition.id' c
                                 \<in> set (map competition_allowed_school.competition_id grants)
                               \<and> competition.tenant_id c \<noteq> school) (competitions st)
              else [])"
  have "get_school_competitions_handler st s = Response 200 (uniqueCompetitions acc)"
    unfolding get_school_competitions_handler_def acc_def grants_def Let_def school
    by simp
  with assms have xs: "xs = uniqueCompetitions acc"
    by simp
  have d: "distinct (map competition.id' xs)"
    by (simp add: xs uniqueCompetitions_distinct)
  have "set acc = {c \<in> set (competitions st). accessible st school c}"
  proof (cases "grants = []")
    case True
    then have "\<forall>a \<in> set (competition_allowed_schools st).
                 competition_allowed_school.school_id a \<noteq> school"
      by (simp add: grants_def filter_empty_conv)
    with True show ?thesis
      by (auto simp: acc_def accessible_def)
  next
    case False
    then show ?thesis
      by (auto simp: acc_def accessible_def grants_def image_iff)
  qed
  then have "set (map competition.id' xs)
         = competition.id' ` {c \<in> set (competitions st). accessible st school c}"
    using uniqueCompetitions_id_set [of acc] by (simp add: xs)
  with school d show ?thesis by (rule that)
qed

text \<open>
  Claim C2 fails on the code. The first school owns a private competition, which the
  specification's list for that school holds; the list the route sends for the school
  does not: the second query selects only the owned competitions whose visibility is
  \<^verbatim>\<open>restricted\<close>.
\<close>

theorem school_competitions_omit_owned_private:
  "comp_private \<in> set (competitions sample_store)
   \<and> competition.tenant_id comp_private = school_A
   \<and> competition.visibility comp_private = Private
   \<and> spec_accessible sample_store school_A comp_private
   \<and> get_school_competitions sample_store student_A (uuid_out school_A)
       = Response 200 [comp_public, comp_restricted]
   \<and> competition.id' comp_private
       \<notin> set (map competition.id' [comp_public, comp_restricted])"
  by (simp add: get_school_competitions_def get_school_competitions_preHandler_def
        get_school_competitions_handler_def uniqueCompetitions_def new_Map_def
        spec_accessible_def uuid_in_defs is_uuid_defs sample_defs)

subsection \<open>Granting a school access\<close>

text \<open>
  When a school administrator's grant passes the hook, the hook has set the visibility of
  the competition to restricted.
\<close>

lemma school_admin_grant_sets_restricted:
  assumes admin: "request_user.role u = ''school_admin''"
    and passed: "post_allowed_school_preHandler st u b = (Continue, st')"
    and k: "uuid_in (allowed_school_body.competition_id b) = Some k"
    and row: "c \<in> set (competitions st')" and id: "competition.id' c = k"
  shows "competition.visibility c = Restricted"
proof -
  from admin passed have "st' = set_restricted st (allowed_school_body.competition_id b)"
    by (simp add: post_allowed_school_preHandler_def split: option.splits if_splits)
  with k have "competitions st'
      = map (\<lambda>x. if competition.id' x = k then x\<lparr>competition.visibility := Restricted\<rparr>
                  else x) (competitions st)"
    by (simp add: set_restricted_def)
  with row have "c \<in> (\<lambda>x. if competition.id' x = k
                         then x\<lparr>competition.visibility := Restricted\<rparr> else x)
                   ` set (competitions st)"
    by simp
  then obtain x where
    "c = (if competition.id' x = k then x\<lparr>competition.visibility := Restricted\<rparr> else x)"
    by (rule imageE)
  with id show ?thesis
    by (cases "competition.id' x = k") simp_all
qed

text \<open>
  Claim C3 fails on the code. The superuser grants the second school access to the
  private competition of the first: the grant is created (201) and is in the store, and
  the competition is still private. The hook returns for a superuser before the update
  of the visibility, which only the branch of the school administrator runs.
\<close>

theorem superuser_grant_keeps_visibility:
  "request_user.role root = ''superuser''
   \<and> competition.visibility comp_private = Private
   \<and> fst (post_allowed_school sample_store root
            \<lparr>competition_id = uuid_out (competition.id' comp_private),
               school_id = uuid_out school_B\<rparr>)
       = Response 201 \<lparr>competition_allowed_school.competition_id = competition.id' comp_private,
                         school_id = school_B\<rparr>
   \<and> competition_allowed_schools
        (snd (post_allowed_school sample_store root
               \<lparr>competition_id = uuid_out (competition.id' comp_private),
                  school_id = uuid_out school_B\<rparr>))
       = [\<lparr>competition_allowed_school.competition_id = competition.id' comp_private,
             school_id = school_B\<rparr>]
   \<and> competition_by_id
        (snd (post_allowed_school sample_store root
               \<lparr>competition_id = uuid_out (competition.id' comp_private),
                  school_id = uuid_out school_B\<rparr>))
        (uuid_out (competition.id' comp_private))
       = Data comp_private"
  by code_simp

subsection \<open>A school administrator updating a user\<close>

text \<open>
  Claim C4 fails on the code. The administrator of the first school changes the email of
  the student of the same school; the body sets neither role nor tenant. The checks of
  the administrator's branch pass and the hook goes on to its last check, which denies
  every caller who is not a superuser: the route answers 403
  \<^verbatim>\<open>Insufficient permissions\<close> and the store is unchanged.
\<close>

theorem school_admin_user_update_denied:
  "request_user.role admin_A = ''school_admin''
   \<and> user_by_id sample_store (uuid_out (user.id' student_A_row)) = Data student_A_row
   \<and> uuid_out (user.tenant_id student_A_row) = request_user.tenant_id admin_A
   \<and> user.role student_A_row = ''student''
   \<and> put_user sample_store admin_A None (uuid_out (user.id' student_A_row))
        \<lparr>email = Some ''new@a.example'', tenant_id = None, role = None\<rparr>
       = (ErrorResponse 403 ''Insufficient permissions'', sample_store)"
  by (simp add: put_user_def users_onRequest_def enforceTenantId_def js_or_def truthy_def
        user_update_schema_def put_user_preHandler_def and_then_def user_by_id_def
        uuid_in_defs is_uuid_defs sample_defs)

subsection \<open>Lists of another tenant\<close>

text \<open>
  Claim C6 fails on the code. A student and a school administrator of the first school
  ask for the competitions of the second school, and for the competitions the second
  school can access: the hooks let both through, and the first route answers 200 with
  the private competition of the second school.
\<close>

theorem tenant_mismatch_not_enforced:
  "request_user.role student_A = ''student''
   \<and> request_user.role admin_A = ''school_admin''
   \<and> request_user.tenant_id student_A = uuid_out school_A
   \<and> request_user.tenant_id admin_A = uuid_out school_A
   \<and> school_B \<noteq> school_A
   \<and> route_hooks sample_store student_A None (GetCompetitionsByTenant (uuid_out school_B))
       = Continue
   \<and> route_hooks sample_store admin_A None (GetCompetitionsByTenant (uuid_out school_B))
       = Continue
   \<and> route_hooks sample_store student_A None (GetCompetitionsBySchool (uuid_out school_B))
       = Continue
   \<and> route_hooks sample_store admin_A None (GetCompetitionsBySchool (uuid_out school_B))
       = Continue
   \<and> get_competitions_by_tenant sample_store student_A (uuid_out school_B)
       = Response 200 [comp_private_B]"
  by (simp add: get_competitions_by_tenant_def get_competitions_by_tenant_preHandler_def
        get_competitions_by_tenant_handler_def get_school_competitions_preHandler_def
        uuid_in_defs is_uuid_defs sample_defs)

end
